theory Spec2Isabelle
  imports Main "HOL-Library.Char_ord" "HOL-Library.List_Lexorder" "HOL-Library.Sublist"
    "HOL-Library.AList"
begin

section \<open>The publishing pipeline of \<^verbatim>\<open>lambda_function.py\<close>\<close>

text \<open>
  Strings are Python \<^verbatim>\<open>str\<close> values in their UTF-8 encoding, one \<^typ>\<open>char\<close> per byte.
  Every literal of the source is ASCII; the one pattern of the source matches ASCII
  characters and ``any character but a newline'', and bytewise lexicographic order of
  UTF-8 is the order of the code points. So matching and sorting on bytes give the
  encoding of what Python computes on code points.
\<close>

subsection \<open>Errors\<close>

text \<open>The exceptions the modelled statements raise. None of them is caught in the source.\<close>

datatype error =
    AttributeError          \<comment> \<open>\<^verbatim>\<open>.group\<close> on the \<^verbatim>\<open>None\<close> of a failed \<^verbatim>\<open>re.search\<close>\<close>
  | FileNotFoundError
  | NotADirectoryError
  | IsADirectoryError
  | ValueError              \<comment> \<open>embedded null byte in a path\<close>
  | FileExistsError
  | LeavesTree              \<comment> \<open>the path leaves the directory tree the model holds: not an
                                exception, the boundary of this model\<close>
  | TemplateNotFound
  | ExternalError string    \<comment> \<open>raised by a collaborator: spreadsheet service, templating
                                engine, object storage\<close>

subsection \<open>Constants of the module\<close>

definition IGNORED_FILES :: "string list" where
  "IGNORED_FILES = [''template.html'', ''.DS_Store'']"

definition LISTS_MAPPING :: "string \<rightharpoonup> string" where
  "LISTS_MAPPING = map_of
     [(''learning_resources'', ''&#128218; Learning Resources''),
      (''productivity'', ''&#128187; Productivity''),
      (''health'', ''&#x1F3CB; Health & Fitness''),
      (''entertainment'', ''&#x1F4FA; Entertainment'')]"

definition CONTENT_TYPE_MAPPING :: "string \<rightharpoonup> string" where
  "CONTENT_TYPE_MAPPING = map_of
     [(''.css'', ''text/css''),
      (''.html'', ''text/html''),
      (''.jpg'', ''image/jpeg''),
      (''.xml'', ''text/xml'')]"

definition INTRO_TEXT :: string where
  \<open>INTRO_TEXT = ''
<b>COVID-19 continues disrupting lives.</b> Some are going through severe health situations. Others have lost their jobs. And by now, many of us are quarantined in our homes.
<br><br>
Life may feel tough now, but don't despair. This can be a time to learn new things, get better at your craft or enjoy (virtual) time with friends and family. 
<br><br>
<b>This page is a list of high-quality resources available for free or cheaper than usual due to the COVID-19:</b>
<a href="#learning_resources"> Learning Resources</a>,
<a href="#health"> Health & Fitness</a>,
<a href="#productivity"> Productivity</a>, and
<a href="#entertainment"> Entertainment</a>.
<br><br>
If you like them, use them or share them with others. If you know of something that is not here, <a href="https://docs.google.com/forms/d/e/1FAIpQLSf6qLcvJGWS3VltKV99sO0KhBxmWxb0sdIpVu93OolL42s7rQ/viewform?usp=sf_link">please let me know</a>.
''\<close>

definition META_CONTENT :: string where
  \<open>META_CONTENT = ''
A list of +50 high-quality resources available for free or cheaper than usual due to the COVID-19
''\<close>

text \<open>\<^verbatim>\<open>d.get(key, default)\<close> of a Python dictionary.\<close>

definition dict_get :: "('k \<rightharpoonup> 'v) \<Rightarrow> 'k \<Rightarrow> 'v \<Rightarrow> 'v" where
  "dict_get d k dflt = (case d k of Some v \<Rightarrow> v | None \<Rightarrow> dflt)"

subsection \<open>\<^verbatim>\<open>pathlib\<close>: the suffix of a name\<close>

text \<open>
  \<^verbatim>\<open>PurePath.suffix\<close> as in the Python releases the module was written for:
  \<^verbatim>\<open>i = name.rfind('.'); return name[i:] if 0 < i < len(name) - 1 else ''\<close>.
\<close>

definition rfind_dot :: "string \<Rightarrow> nat option" where
  "rfind_dot name =
     (if CHR ''.'' \<in> set name
      then Some (length name - 1 - length (takeWhile (\<lambda>c. c \<noteq> CHR ''.'') (rev name)))
      else None)"

definition path_suffix :: "string \<Rightarrow> string" where
  "path_suffix name =
     (case rfind_dot name of
        None \<Rightarrow> []
      | Some i \<Rightarrow> if 0 < i \<and> i < length name - 1 then drop i name else [])"

subsection \<open>\<^verbatim>\<open>re.search(r"[0-9]_(.*?)\.csv", name)\<close>\<close>

definition is_digit :: "char \<Rightarrow> bool" where
  "is_digit c = (c \<in> set ''0123456789'')"

abbreviation newline :: char where
  "newline \<equiv> CHR 0x0A"

text \<open>
  The lazy group followed by the literal: at each position the literal \<^verbatim>\<open>.csv\<close> is tried
  first; only when it fails does the group take one more character, which must not be a
  newline. \<open>acc\<close> holds the group so far, reversed.
\<close>

fun match_lazy :: "string \<Rightarrow> string \<Rightarrow> string option" where
  "match_lazy acc s =
     (if prefix ''.csv'' s then Some (rev acc)
      else (case s of
              [] \<Rightarrow> None
            | c # cs \<Rightarrow> if c = newline then None else match_lazy (c # acc) cs))"

text \<open>The pattern tried at the start of \<open>s\<close>.\<close>

declare match_lazy.simps [simp del]

fun match_at :: "string \<Rightarrow> string option" where
  "match_at (d # u # rest) =
     (if is_digit d \<and> u = CHR ''_'' then match_lazy [] rest else None)"
| "match_at _ = None"

text \<open>\<^verbatim>\<open>re.search\<close>: the leftmost start position with a match wins; the result is group 1.\<close>

fun re_search :: "string \<Rightarrow> string option" where
  "re_search [] = None"
| "re_search (c # cs) =
     (case match_at (c # cs) of Some k \<Rightarrow> Some k | None \<Rightarrow> re_search cs)"

text \<open>
  \<^verbatim>\<open>original_name = re.search(...).group(1)\<close>: a failed search is \<^verbatim>\<open>None\<close>, and
  \<^verbatim>\<open>None.group\<close> raises.
\<close>

definition original_name :: "string \<Rightarrow> error + string" where
  "original_name name =
     (case re_search name of None \<Rightarrow> Inl AttributeError | Some k \<Rightarrow> Inr k)"

text \<open>\<^verbatim>\<open>processed_name = LISTS_MAPPING.get(original_name, original_name)\<close>\<close>

definition processed_name :: "string \<Rightarrow> string" where
  "processed_name key = dict_get LISTS_MAPPING key key"

subsection \<open>The local file system\<close>

text \<open>
  A directory is the list of its entries in the order \<^verbatim>\<open>iterdir()\<close> yields them, which
  the operating system chooses. A file holds its text.
\<close>

datatype node = File string | Dir "(string \<times> node) list"

type_synonym directory = "(string \<times> node) list"

text \<open>\<^verbatim>\<open>s.split(sep)\<close> for a one-character separator.\<close>

fun split_on :: "char \<Rightarrow> string \<Rightarrow> string list" where
  "split_on sep [] = [[]]"
| "split_on sep (c # cs) =
     (if c = sep then [] # split_on sep cs
      else (case split_on sep cs of p # ps \<Rightarrow> (c # p) # ps | [] \<Rightarrow> [[c]]))"

text \<open>
  The parts \<^verbatim>\<open>pathlib\<close> keeps of a relative path string: empty parts and \<^verbatim>\<open>.\<close> are
  dropped.
\<close>

definition path_parts :: "string \<Rightarrow> string list" where
  "path_parts s = filter (\<lambda>p. p \<noteq> [] \<and> p \<noteq> ''.'') (split_on CHR ''/'' s)"

text \<open>
  \<^verbatim>\<open>open(d / name, "w")\<close> and a write of \<open>text\<close>, for a name that is one path
  component of a directory listing (so not \<^verbatim>\<open>..\<close>): a directory of that name cannot
  be opened; a file of that name is replaced; otherwise the file is new in the listing.
\<close>

definition put_file :: "directory \<Rightarrow> string \<Rightarrow> string \<Rightarrow> error + directory" where
  "put_file d name text =
     (case map_of d name of
        Some (Dir sub) \<Rightarrow> Inl IsADirectoryError
      | _ \<Rightarrow> Inr (AList.update name (File text) d))"

text \<open>
  Opening the file at the parts \<open>ps\<close> below directory \<open>d\<close> for writing, and writing
  \<open>text\<close>: every part but the last must be an existing directory. A part \<^verbatim>\<open>..\<close>
  leaves the tree the model holds.
\<close>

fun write_file :: "directory \<Rightarrow> string list \<Rightarrow> string \<Rightarrow> error + directory" where
  "write_file d [] text = Inl IsADirectoryError"
| "write_file d [name] text =
     (if name = ''..'' then Inl LeavesTree else put_file d name text)"
| "write_file d (p # ps) text =
     (if p = ''..'' then Inl LeavesTree
      else (case map_of d p of
              None \<Rightarrow> Inl FileNotFoundError
            | Some (File t) \<Rightarrow> Inl NotADirectoryError
            | Some (Dir sub) \<Rightarrow>
                (case write_file sub ps text of
                   Inl e \<Rightarrow> Inl e
                 | Inr sub' \<Rightarrow> Inr (AList.update p (Dir sub') d))))"

text \<open>
  \<^verbatim>\<open>open(DATA_DIR / s, "w")\<close> followed by a write of \<open>text\<close>, on the directory \<open>d\<close>
  that \<^verbatim>\<open>DATA_DIR\<close> is. A string that starts with a slash replaces \<^verbatim>\<open>DATA_DIR\<close> in the
  join; a null byte is refused by \<^verbatim>\<open>open\<close>.
\<close>

definition open_write :: "directory \<Rightarrow> string \<Rightarrow> string \<Rightarrow> error + directory" where
  "open_write d s text =
     (if CHR 0x00 \<in> set s then Inl ValueError
      else if prefix ''/'' s then Inl LeavesTree
      else write_file d (path_parts s) text)"

subsection \<open>Collaborators and the state of the world\<close>

record sheet =
  title :: string
  get_all_values :: "error + string list list"

record s3_object =
  body :: string
  content_type :: string

text \<open>
  What the libraries and services answer during one run. \<open>'r\<close> is the type of a record
  as \<^verbatim>\<open>csv.DictReader\<close> returns it.
\<close>

record 'r env =
  authorize :: "error option"
    \<comment> \<open>\<^verbatim>\<open>ServiceAccountCredentials.from_json_keyfile_name\<close> and \<^verbatim>\<open>gspread.authorize\<close>\<close>
  open_workbook :: "error + sheet list"
    \<comment> \<open>\<^verbatim>\<open>client.open("Stay Home and Learn")\<close> and \<^verbatim>\<open>workbook.worksheets()\<close>\<close>
  csv_writerows :: "string list list \<Rightarrow> string"
  csv_dictreader :: "string \<Rightarrow> error + 'r list"
  jinja_compile :: "string \<Rightarrow> error option"
    \<comment> \<open>what \<^verbatim>\<open>get_template\<close> raises on the source of the template, if anything\<close>
  jinja_render ::
    "string \<Rightarrow> (string \<times> string \<times> 'r list) list \<Rightarrow> string \<Rightarrow> string \<Rightarrow> string \<Rightarrow> error + string"
    \<comment> \<open>template source, \<^verbatim>\<open>lists\<close>, \<^verbatim>\<open>intro_text\<close>, \<^verbatim>\<open>last_update\<close>, \<^verbatim>\<open>meta_content\<close>\<close>
  strftime_now :: "string \<Rightarrow> string"
    \<comment> \<open>\<^verbatim>\<open>datetime.now().strftime(fmt)\<close>\<close>
  new_session :: "error option"
    \<comment> \<open>\<^verbatim>\<open>boto3.Session(profile_name="personal")\<close> and \<^verbatim>\<open>session.resource("s3")\<close>\<close>
  upload_error :: "string \<Rightarrow> error option"
    \<comment> \<open>what \<^verbatim>\<open>upload_file\<close> raises for a key, if anything\<close>

datatype stage = Fetcher | Renderer | Publisher

text \<open>The calls a run makes on the file system and on the collaborators.\<close>

datatype op =
    Rmtree | Mkdir
  | Authorize | Open_workbook | Get_all_values string | Write_csv string
  | Copytree string | Copy string | Get_template | Read_csv string | Render_template
  | Write_index
  | New_session | Upload_file string string

record world =
  template_dir :: directory
  data_dir :: directory
  site_dir :: directory
  bucket :: "string \<rightharpoonup> s3_object"
  log :: "(stage \<times> op) list"

definition logged :: "stage \<Rightarrow> op \<Rightarrow> world \<Rightarrow> world" where
  "logged st x w = w\<lparr>log := log w @ [(st, x)]\<rparr>"

subsection \<open>\<^verbatim>\<open>download_sheets\<close>\<close>

text \<open>The loop over \<^verbatim>\<open>workbook.worksheets()\<close>.\<close>

fun write_sheets :: "'r env \<Rightarrow> sheet list \<Rightarrow> world \<Rightarrow> error option \<times> world" where
  "write_sheets env [] w = (None, w)"
| "write_sheets env (worksheet # rest) w =
     (let filename = title worksheet @ ''.csv'';
          w1 = logged Fetcher (Get_all_values (title worksheet)) w
      in case get_all_values worksheet of
           Inl e \<Rightarrow> (Some e, w1)
         | Inr sheet_values \<Rightarrow>
             (let w2 = logged Fetcher (Write_csv filename) w1
              in case open_write (data_dir w2) filename (csv_writerows env sheet_values) of
                   Inl e \<Rightarrow> (Some e, w2)
                 | Inr d \<Rightarrow> write_sheets env rest (w2\<lparr>data_dir := d\<rparr>)))"

definition download_sheets :: "'r env \<Rightarrow> world \<Rightarrow> error option \<times> world" where
  "download_sheets env w =
     (let w1 = logged Fetcher Mkdir (logged Fetcher Rmtree (w\<lparr>data_dir := []\<rparr>));
          w2 = logged Fetcher Authorize w1
      in case authorize env of
           Some e \<Rightarrow> (Some e, w2)
         | None \<Rightarrow>
             (let w3 = logged Fetcher Open_workbook w2
              in case open_workbook env of
                   Inl e \<Rightarrow> (Some e, w3)
                 | Inr worksheets \<Rightarrow> write_sheets env worksheets w3))"

subsection \<open>\<^verbatim>\<open>generate_site\<close>\<close>

text \<open>
  The loop over \<^verbatim>\<open>TEMPLATE_DIR.iterdir()\<close>. \<^verbatim>\<open>shutil.copytree\<close> refuses a destination
  that exists; \<^verbatim>\<open>shutil.copy\<close> into a directory writes the file of the same name there.
\<close>

fun copy_template :: "directory \<Rightarrow> world \<Rightarrow> error option \<times> world" where
  "copy_template [] w = (None, w)"
| "copy_template ((name, Dir sub) # rest) w =
     (let w1 = logged Renderer (Copytree name) w
      in case map_of (site_dir w1) name of
           Some n \<Rightarrow> (Some FileExistsError, w1)
         | None \<Rightarrow>
             copy_template rest (w1\<lparr>site_dir := AList.update name (Dir sub) (site_dir w1)\<rparr>))"
| "copy_template ((name, File text) # rest) w =
     (if name \<noteq> ''template.html'' \<and> name \<noteq> ''.DS_Store''
      then (let w1 = logged Renderer (Copy name) w
            in case put_file (site_dir w1) name text of
                 Inl e \<Rightarrow> (Some e, w1)
               | Inr d \<Rightarrow> copy_template rest (w1\<lparr>site_dir := d\<rparr>))
      else copy_template rest w)"

text \<open>The \<^verbatim>\<open>.csv\<close> files of the data directory, sorted.\<close>

definition csv_files :: "directory \<Rightarrow> string list" where
  "csv_files d = sort (filter (\<lambda>name. path_suffix name = ''.csv'') (map fst d))"

text \<open>The loop over \<^verbatim>\<open>csv_files\<close>, which appends to \<^verbatim>\<open>lists_all\<close>.\<close>

fun read_csv_files ::
  "'r env \<Rightarrow> string list \<Rightarrow> (string \<times> string \<times> 'r list) list \<Rightarrow> world
     \<Rightarrow> (error + (string \<times> string \<times> 'r list) list) \<times> world" where
  "read_csv_files env [] lists_all w = (Inr lists_all, w)"
| "read_csv_files env (csv_file # rest) lists_all w =
     (case original_name csv_file of
        Inl e \<Rightarrow> (Inl e, w)
      | Inr key \<Rightarrow>
          (let w1 = logged Renderer (Read_csv csv_file) w
           in case map_of (data_dir w1) csv_file of
                None \<Rightarrow> (Inl FileNotFoundError, w1)
              | Some (Dir sub) \<Rightarrow> (Inl IsADirectoryError, w1)
              | Some (File text) \<Rightarrow>
                  (case csv_dictreader env text of
                     Inl e \<Rightarrow> (Inl e, w1)
                   | Inr list_ind \<Rightarrow>
                       read_csv_files env rest
                         (lists_all @ [(key, processed_name key, list_ind)]) w1)))"

text \<open>From \<^verbatim>\<open>curr_date = ...\<close> to the end of the function.\<close>

definition render_index ::
  "'r env \<Rightarrow> string \<Rightarrow> (string \<times> string \<times> 'r list) list \<Rightarrow> world \<Rightarrow> error option \<times> world" where
  "render_index env template lists_all w =
     (let curr_date = strftime_now env ''%B %-d, %Y'';
          w1 = logged Renderer Render_template w
      in case jinja_render env template lists_all INTRO_TEXT curr_date META_CONTENT of
           Inl e \<Rightarrow> (Some e, w1)
         | Inr output \<Rightarrow>
             (let w2 = logged Renderer Write_index w1
              in case put_file (site_dir w2) ''index.html'' output of
                   Inl e \<Rightarrow> (Some e, w2)
                 | Inr d \<Rightarrow> (None, w2\<lparr>site_dir := d\<rparr>)))"

definition generate_site :: "'r env \<Rightarrow> world \<Rightarrow> error option \<times> world" where
  "generate_site env w =
     (let w1 = logged Renderer Mkdir (logged Renderer Rmtree (w\<lparr>site_dir := []\<rparr>))
      in case copy_template (template_dir w1) w1 of
           (Some e, w2) \<Rightarrow> (Some e, w2)
         | (None, w2) \<Rightarrow>
             (let w3 = logged Renderer Get_template w2
              in case map_of (template_dir w3) ''template.html'' of
                   Some (File template) \<Rightarrow>
                     (case jinja_compile env template of
                        Some e \<Rightarrow> (Some e, w3)
                      | None \<Rightarrow>
                          (case read_csv_files env (csv_files (data_dir w3)) [] w3 of
                             (Inl e, w4) \<Rightarrow> (Some e, w4)
                           | (Inr lists_all, w4) \<Rightarrow> render_index env template lists_all w4))
                 | _ \<Rightarrow> (Some TemplateNotFound, w3)))"

subsection \<open>\<^verbatim>\<open>upload_recursively_to_s3\<close>\<close>

text \<open>
  The argument \<^verbatim>\<open>dir\<close> is given by its listing; \<^verbatim>\<open>upload_file\<close> puts the text of the
  local file under the key, replacing what was there.
\<close>

fun upload_recursively_to_s3 ::
  "'r env \<Rightarrow> directory \<Rightarrow> string \<Rightarrow> world \<Rightarrow> error option \<times> world" where
  "upload_recursively_to_s3 env [] prefix' w = (None, w)"
| "upload_recursively_to_s3 env ((name, Dir sub) # rest) prefix' w =
     (case upload_recursively_to_s3 env sub (prefix' @ name @ ''/'') w of
        (Some e, w1) \<Rightarrow> (Some e, w1)
      | (None, w1) \<Rightarrow> upload_recursively_to_s3 env rest prefix' w1)"
| "upload_recursively_to_s3 env ((name, File text) # rest) prefix' w =
     (if name \<notin> set IGNORED_FILES
      then (let content_type = dict_get CONTENT_TYPE_MAPPING (path_suffix name)
                                 ''application/octet-stream'';
                key = prefix' @ name;
                w1 = logged Publisher (Upload_file key content_type) w
            in case upload_error env key of
                 Some e \<Rightarrow> (Some e, w1)
               | None \<Rightarrow>
                   upload_recursively_to_s3 env rest prefix'
                     (w1\<lparr>bucket := (bucket w1)
                        (key \<mapsto> \<lparr>body = text, content_type = content_type\<rparr>)\<rparr>))
      else upload_recursively_to_s3 env rest prefix' w)"

subsection \<open>\<^verbatim>\<open>build_site\<close>\<close>

definition build_site :: "'r env \<Rightarrow> world \<Rightarrow> error option \<times> world" where
  "build_site env w =
     (case download_sheets env w of
        (Some e, w1) \<Rightarrow> (Some e, w1)
      | (None, w1) \<Rightarrow>
          (case generate_site env w1 of
             (Some e, w2) \<Rightarrow> (Some e, w2)
           | (None, w2) \<Rightarrow>
               (let w3 = logged Publisher New_session w2
                in case new_session env of
                     Some e \<Rightarrow> (Some e, w3)
                   | None \<Rightarrow> upload_recursively_to_s3 env (site_dir w3) [] w3)))"

subsection \<open>What the statements below speak of\<close>

text \<open>
  Every file below a directory, depth first in listing order: the names of the
  directories on the way down, the name of the file, its text.
\<close>

fun files_under :: "directory \<Rightarrow> (string list \<times> string \<times> string) list" where
  "files_under [] = []"
| "files_under ((name, Dir sub) # rest) =
     map (\<lambda>(dirs, file). (name # dirs, file)) (files_under sub) @ files_under rest"
| "files_under ((name, File text) # rest) = ([], name, text) # files_under rest"

text \<open>A relative path as a string: \<^verbatim>\<open>"/".join(parts)\<close>.\<close>

fun join_path :: "string list \<Rightarrow> string" where
  "join_path [] = []"
| "join_path [p] = p"
| "join_path (p # ps) = p @ ''/'' @ join_path ps"

definition relative_path :: "string list \<times> string \<times> string \<Rightarrow> string" where
  "relative_path f = (case f of (dirs, name, text) \<Rightarrow> join_path (dirs @ [name]))"

text \<open>The files below a directory whose name is not in the ignore-list.\<close>

definition not_ignored :: "directory \<Rightarrow> (string list \<times> string \<times> string) list" where
  "not_ignored d = filter (\<lambda>(dirs, name, text). name \<notin> set IGNORED_FILES) (files_under d)"

text \<open>The content-type table as the specification writes it.\<close>

definition table_content_type :: "string \<Rightarrow> string" where
  "table_content_type name =
     (if path_suffix name = ''.css'' then ''text/css''
      else if path_suffix name = ''.html'' then ''text/html''
      else if path_suffix name = ''.jpg'' then ''image/jpeg''
      else if path_suffix name = ''.xml'' then ''text/xml''
      else ''application/octet-stream'')"

text \<open>The keys of the \<^verbatim>\<open>upload_file\<close> calls in a log, in order.\<close>

fun uploaded_keys :: "(stage \<times> op) list \<Rightarrow> string list" where
  "uploaded_keys [] = []"
| "uploaded_keys ((st, Upload_file key ct) # rest) = key # uploaded_keys rest"
| "uploaded_keys (x # rest) = uploaded_keys rest"

text \<open>
  \<open>from_file env d name cat\<close>: the category \<open>cat\<close> is what the loop of
  \<^verbatim>\<open>generate_site\<close> appends for the file \<open>name\<close> of the data directory \<open>d\<close>.
\<close>

definition from_file ::
  "'r env \<Rightarrow> directory \<Rightarrow> string \<Rightarrow> string \<times> string \<times> 'r list \<Rightarrow> bool" where
  "from_file env d name cat =
     (case cat of (key, label, records) \<Rightarrow>
        original_name name = Inr key \<and> label = processed_name key \<and>
        (case map_of d name of
           Some (File text) \<Rightarrow> csv_dictreader env text = Inr records
         | _ \<Rightarrow> False))"

text \<open>The key extraction as the specification words it: the whole name is
  one digit, an underscore, the key, and \<^verbatim>\<open>.csv\<close>.\<close>

definition pattern_key :: "string \<Rightarrow> string option" where
  "pattern_key name =
     (case name of
        d # u # rest \<Rightarrow>
          if is_digit d \<and> u = CHR ''_'' \<and> suffix ''.csv'' rest
          then Some (take (length rest - 4) rest) else None
      | _ \<Rightarrow> None)"

subsection \<open>An example run\<close>

text \<open>
  Stand-ins for the collaborators, and a world with stale data, a stale site and a remote
  object left by an earlier run.
\<close>

definition demo_env :: "string env" where
  "demo_env = \<lparr>
     authorize = None,
     open_workbook = Inr
       [\<lparr>title = ''1_learning_resources'',
          get_all_values = Inr [[''title'', ''url''], [''Course'', ''http://x'']]\<rparr>,
        \<lparr>title = ''2_health'',
          get_all_values = Inr [[''title'', ''url''], [''Yoga'', ''http://y'']]\<rparr>],
     csv_writerows = (\<lambda>rows. concat (map (\<lambda>row. concat (map (\<lambda>cell. cell @ '','') row) @ [newline]) rows)),
     csv_dictreader = (\<lambda>text. Inr (tl (split_on newline text))),
     jinja_compile = (\<lambda>template. None),
     jinja_render = (\<lambda>template lists intro_text last_update meta_content.
        Inr (template @ concat (map (\<lambda>(key, label, records). label @ concat records) lists)
             @ last_update)),
     strftime_now = (\<lambda>fmt. ''May 1, 2020''),
     new_session = None,
     upload_error = (\<lambda>key. None)\<rparr>"

definition demo_world :: world where
  "demo_world = \<lparr>
     template_dir =
       [(''template.html'', File ''<html>''),
        (''css'', Dir [(''style.css'', File ''body{}''), (''.DS_Store'', File [])]),
        (''.DS_Store'', File []),
        (''logo.jpg'', File ''jpeg'')],
     data_dir =
       [(''2_health.csv'', File ''title,url''),
        (''notes.txt'', File []),
        (''1_learning_resources.csv'', File ''title,url'')],
     site_dir = [(''stale.html'', File ''old'')],
     bucket = [''old.html'' \<mapsto> \<lparr>body = ''old'', content_type = ''text/html''\<rparr>],
     log = []\<rparr>"

definition demo_world_bad_name :: world where
  "demo_world_bad_name = demo_world\<lparr>data_dir := [(''notes.csv'', File [])]\<rparr>"

section \<open>Properties\<close>

subsection \<open>The search of the pattern\<close>

lemma match_lazy_found: "prefix ''.csv'' s \<Longrightarrow> match_lazy acc s = Some (rev acc)"
  by (subst match_lazy.simps) simp

lemma match_lazy_Nil: "match_lazy acc [] = None"
  by (subst match_lazy.simps) simp

lemma match_lazy_step:
  "\<not> prefix ''.csv'' (c # cs) \<Longrightarrow>
   match_lazy acc (c # cs) = (if c = newline then None else match_lazy (c # acc) cs)"
  using match_lazy.simps [of acc "c # cs"] by (simp only: if_False list.case)

lemma prefix_csv_key:
  assumes "prefix ''.csv'' (key @ ''.csv'')" "key \<noteq> []"
  shows "sublist ''.csv'' key"
proof -
  consider (1) a where "key = [a]" | (2) a b where "key = [a, b]"
    | (3) a b c where "key = [a, b, c]" | (4) a b c d r where "key = a # b # c # d # r"
    using assms(2) by (metis list.exhaust)
  then show ?thesis
  proof cases
    case 4
    with assms(1) have "key = ''.csv'' @ r" by simp
    then show ?thesis by (metis append_Nil sublist_appendI)
  qed (use assms(1) in auto)
qed

lemma match_lazy_exact:
  "newline \<notin> set key \<Longrightarrow> \<not> sublist ''.csv'' key \<Longrightarrow>
   match_lazy acc (key @ ''.csv'') = Some (rev acc @ key)"
proof (induction key arbitrary: acc)
  case Nil
  then show ?case by (simp add: match_lazy_found)
next
  case (Cons c cs)
  have np: "\<not> prefix ''.csv'' ((c # cs) @ ''.csv'')"
    using prefix_csv_key [of "c # cs"] Cons.prems(2) by blast
  have "\<not> sublist ''.csv'' cs"
    using Cons.prems(2) by (simp add: sublist_Cons_right)
  with Cons.IH [of "c # acc"] Cons.prems(1) have "match_lazy (c # acc) (cs @ ''.csv'') = Some (rev (c # acc) @ cs)"
    by simp
  with np Cons.prems(1) show ?case
    by (auto simp add: match_lazy_step)
qed

lemma match_lazy_sound:
  "match_lazy acc s = Some r \<Longrightarrow>
   \<exists>key post. r = rev acc @ key \<and> s = key @ ''.csv'' @ post \<and> newline \<notin> set key"
proof (induction acc s rule: match_lazy.induct)
  case (1 acc s)
  show ?case
  proof (cases "prefix ''.csv'' s")
    case True
    then obtain post where "s = ''.csv'' @ post" by (auto simp: prefix_def)
    moreover from True "1.prems" have "r = rev acc" by (simp add: match_lazy_found)
    ultimately show ?thesis by (intro exI [of _ "[]"] exI [of _ post]) simp
  next
    case False
    with "1.prems" obtain c cs where s: "s = c # cs" and nl: "c \<noteq> newline"
      and m: "match_lazy (c # acc) cs = Some r"
      by (cases s) (auto simp: match_lazy_Nil match_lazy_step split: if_splits)
    from "1.IH" [OF False s nl m] obtain key post where
      "r = rev (c # acc) @ key" "cs = key @ ''.csv'' @ post" "newline \<notin> set key" by blast
    with s nl show ?thesis
      by (intro exI [of _ "c # key"] exI [of _ post]) simp
  qed
qed

lemma match_lazy_complete:
  "newline \<notin> set key \<Longrightarrow> match_lazy acc (key @ ''.csv'' @ post) \<noteq> None"
proof (induction key arbitrary: acc)
  case Nil
  then show ?case by (simp add: match_lazy_found)
next
  case (Cons c cs)
  then have *: "match_lazy (c # acc) (cs @ ''.csv'' @ post) \<noteq> None" by simp
  show ?case
  proof (cases "prefix ''.csv'' ((c # cs) @ ''.csv'' @ post)")
    case True
    then show ?thesis by (simp only: match_lazy_found) simp
  next
    case False
    then have "match_lazy acc ((c # cs) @ ''.csv'' @ post) = match_lazy (c # acc) (cs @ ''.csv'' @ post)"
      using Cons.prems by (auto simp add: match_lazy_step)
    with * show ?thesis by simp
  qed
qed

lemma re_search_sound:
  "re_search name = Some k \<Longrightarrow>
   \<exists>pre d post. name = pre @ d # CHR ''_'' # k @ ''.csv'' @ post \<and> is_digit d \<and> newline \<notin> set k"
proof (induction name)
  case Nil
  then show ?case by simp
next
  case (Cons c cs)
  show ?case
  proof (cases "match_at (c # cs)")
    case None
    with Cons.prems have "re_search cs = Some k" by simp
    from Cons.IH [OF this] obtain pre d post where
      "cs = pre @ d # CHR ''_'' # k @ ''.csv'' @ post" "is_digit d" "newline \<notin> set k" by blast
    then show ?thesis by (intro exI [of _ "c # pre"] exI [of _ d] exI [of _ post]) simp
  next
    case (Some k')
    with Cons.prems have k: "k' = k" by simp
    from Some obtain rest where cs: "cs = CHR ''_'' # rest" and d: "is_digit c"
      and m: "match_lazy [] rest = Some k'"
      by (cases cs) (auto split: if_splits)
    from match_lazy_sound [OF m] obtain post where
      "rest = k' @ ''.csv'' @ post" "newline \<notin> set k'" by auto
    with cs d k show ?thesis by (intro exI [of _ "[]"] exI [of _ c] exI [of _ post]) simp
  qed
qed

lemma re_search_complete:
  "is_digit d \<Longrightarrow> newline \<notin> set key \<Longrightarrow>
   re_search (pre @ d # CHR ''_'' # key @ ''.csv'' @ post) \<noteq> None"
proof (induction pre)
  case Nil
  then show ?case using match_lazy_complete [of key "[]" post] by auto
next
  case (Cons c pre)
  then show ?case by (auto split: option.splits)
qed

lemma re_search_exact:
  "is_digit d \<Longrightarrow> newline \<notin> set key \<Longrightarrow> \<not> sublist ''.csv'' key \<Longrightarrow>
   re_search (d # CHR ''_'' # key @ ''.csv'') = Some key"
  using match_lazy_exact [of key "[]"] by simp

subsection \<open>The loop over the data files\<close>

lemma logged_fields [simp]:
  "log (logged st x w) = log w @ [(st, x)]"
  "template_dir (logged st x w) = template_dir w"
  "data_dir (logged st x w) = data_dir w"
  "site_dir (logged st x w) = site_dir w"
  "bucket (logged st x w) = bucket w"
  by (simp_all add: logged_def)

lemma read_csv_files_frame:
  "read_csv_files env fs acc w = (r, w') \<Longrightarrow>
   template_dir w' = template_dir w \<and> data_dir w' = data_dir w \<and>
   site_dir w' = site_dir w \<and> bucket w' = bucket w"
proof (induction fs arbitrary: acc w)
  case Nil
  then show ?case by simp
next
  case (Cons f fs)
  then show ?case
    by (fastforce simp: Let_def split: sum.splits option.splits node.splits)
qed

lemma read_csv_files_result:
  "read_csv_files env fs acc w = (Inr lists_all, w') \<Longrightarrow>
   \<exists>new. lists_all = acc @ new \<and> list_all2 (from_file env (data_dir w)) fs new"
proof (induction fs arbitrary: acc w)
  case Nil
  then show ?case by simp
next
  case (Cons f fs)
  from Cons.prems obtain key content list_ind where
    k: "original_name f = Inr key" and t: "map_of (data_dir w) f = Some (File content)"
    and r: "csv_dictreader env content = Inr list_ind"
    and rest: "read_csv_files env fs (acc @ [(key, processed_name key, list_ind)])
                 (logged Renderer (Read_csv f) w) = (Inr lists_all, w')"
    by (auto simp: Let_def split: sum.splits option.splits node.splits)
  from Cons.IH [OF rest] obtain new where
    "lists_all = (acc @ [(key, processed_name key, list_ind)]) @ new"
    "list_all2 (from_file env (data_dir w)) fs new" by auto
  moreover from k t r have "from_file env (data_dir w) f (key, processed_name key, list_ind)"
    by (simp add: from_file_def)
  ultimately show ?case
    by (intro exI [of _ "(key, processed_name key, list_ind) # new"]) simp
qed

lemma read_csv_files_cong:
  "map_of (data_dir w1) = map_of (data_dir w2) \<Longrightarrow>
   fst (read_csv_files env fs acc w1) = fst (read_csv_files env fs acc w2)"
proof (induction fs arbitrary: acc w1 w2)
  case Nil
  then show ?case by simp
next
  case (Cons f fs)
  have "fst (read_csv_files env fs acc' (logged Renderer (Read_csv f) w1)) =
        fst (read_csv_files env fs acc' (logged Renderer (Read_csv f) w2))" for acc'
    using Cons.prems by (intro Cons.IH) simp
  with Cons.prems show ?case
    by (simp add: Let_def split: sum.splits option.splits node.splits)
qed

lemma read_csv_files_abort:
  "name \<in> set fs \<Longrightarrow> original_name name = Inl e \<Longrightarrow>
   \<exists>e'. fst (read_csv_files env fs acc w) = Inl e'"
proof (induction fs arbitrary: acc w)
  case Nil
  then show ?case by simp
next
  case (Cons f fs)
  show ?case
  proof (cases "name = f")
    case True
    with Cons.prems show ?thesis by simp
  next
    case False
    with Cons.prems have "\<exists>e'. fst (read_csv_files env fs acc' w') = Inl e'" for acc' w'
      by (intro Cons.IH) simp_all
    then show ?thesis
      by (simp add: Let_def split: sum.splits option.splits node.splits)
  qed
qed

lemma read_csv_files_log:
  "\<exists>xs. log (snd (read_csv_files env fs acc w)) = log w @ xs \<and> (\<forall>x\<in>set xs. fst x = Renderer)"
proof (induction fs arbitrary: acc w)
  case Nil
  then show ?case by simp
next
  case (Cons f fs)
  have *: "\<exists>xs. log (snd (read_csv_files env fs acc' (logged Renderer (Read_csv f) w))) =
          log w @ xs \<and> (\<forall>x\<in>set xs. fst x = Renderer)" for acc'
  proof -
    from Cons.IH [of acc' "logged Renderer (Read_csv f) w"] obtain xs where
      "log (snd (read_csv_files env fs acc' (logged Renderer (Read_csv f) w))) =
       log w @ (Renderer, Read_csv f) # xs" "\<forall>x\<in>set xs. fst x = Renderer" by auto
    then show ?thesis by (intro exI [of _ "(Renderer, Read_csv f) # xs"]) simp
  qed
  have **: "\<exists>xs. log w @ [(Renderer, Read_csv f)] = log w @ xs \<and> (\<forall>x\<in>set xs. fst x = Renderer)"
    by (intro exI [of _ "[(Renderer, Read_csv f)]"]) simp
  show ?case
    using * ** by (simp add: Let_def split: sum.splits option.splits node.splits)
qed

subsection \<open>Key extraction\<close>

lemma put_file_cases:
  "put_file d name content = Inl e \<Longrightarrow> e = IsADirectoryError"
  by (auto simp: put_file_def split: option.splits node.splits)

lemma copy_template_frame:
  "copy_template t w = (r, w') \<Longrightarrow>
   template_dir w' = template_dir w \<and> data_dir w' = data_dir w \<and> bucket w' = bucket w"
proof (induction t w rule: copy_template.induct)
  case (1 w)
  then show ?case by simp
next
  case (2 name sub rest w)
  then show ?case by (fastforce simp: Let_def split: option.splits)
next
  case (3 name content rest w)
  then show ?case by (fastforce simp: Let_def split: if_splits sum.splits)
qed

lemma generate_site_abort:
  assumes "name \<in> set (csv_files (data_dir w))" "original_name name = Inl e"
  shows "fst (generate_site env w) \<noteq> None"
proof -
  define w1 where "w1 = logged Renderer Mkdir (logged Renderer Rmtree (w\<lparr>site_dir := []\<rparr>))"
  obtain r w2 where c: "copy_template (template_dir w1) w1 = (r, w2)" by (cases "copy_template (template_dir w1) w1")
  from copy_template_frame [OF c] have d: "data_dir w2 = data_dir w"
    by (simp add: w1_def)
  have "\<exists>e'. fst (read_csv_files env (csv_files (data_dir w)) []
          (logged Renderer Get_template w2)) = Inl e'"
    using assms by (rule read_csv_files_abort)
  then obtain e' w4 where
    "read_csv_files env (csv_files (data_dir w)) [] (logged Renderer Get_template w2) = (Inl e', w4)"
    by (metis prod.collapse)
  with c d show ?thesis
    unfolding generate_site_def Let_def w1_def [symmetric]
    by (simp split: option.splits node.splits)
qed

text \<open>
  C1, amended. A name that is one digit, an underscore, a key and \<^verbatim>\<open>.csv\<close> yields
  exactly the key when the key holds neither a newline nor the text \<^verbatim>\<open>.csv\<close>. The
  extraction raises exactly when the name has no digit that is followed by an underscore
  and, with no newline in between, a later \<^verbatim>\<open>.csv\<close>; a key that is returned stands in
  the name between such a digit and underscore and a \<^verbatim>\<open>.csv\<close>. When the extraction
  raises for a \<^verbatim>\<open>.csv\<close> file of the data directory, \<^verbatim>\<open>generate_site\<close> ends in an
  error: the file is not skipped.
\<close>

theorem key_extraction:
  "(is_digit d \<and> newline \<notin> set key \<and> \<not> sublist ''.csv'' key \<longrightarrow>
      original_name (d # CHR ''_'' # key @ ''.csv'') = Inr key) \<and>
   (original_name name = Inl AttributeError \<longleftrightarrow>
      \<not> (\<exists>pre d' key' post. name = pre @ d' # CHR ''_'' # key' @ ''.csv'' @ post \<and>
            is_digit d' \<and> newline \<notin> set key')) \<and>
   (original_name name = Inr k \<longrightarrow>
      (\<exists>pre d' post. name = pre @ d' # CHR ''_'' # k @ ''.csv'' @ post \<and>
            is_digit d' \<and> newline \<notin> set k)) \<and>
   (name \<in> set (csv_files (data_dir w)) \<and> original_name name = Inl AttributeError \<longrightarrow>
      fst (generate_site env w) \<noteq> None)"
proof (intro conjI impI)
  assume "is_digit d \<and> newline \<notin> set key \<and> \<not> sublist ''.csv'' key"
  then show "original_name (d # CHR ''_'' # key @ ''.csv'') = Inr key"
    using re_search_exact [of d key] by (simp add: original_name_def)
next
  show "original_name name = Inl AttributeError \<longleftrightarrow>
      \<not> (\<exists>pre d' key' post. name = pre @ d' # CHR ''_'' # key' @ ''.csv'' @ post \<and>
            is_digit d' \<and> newline \<notin> set key')"
  proof
    assume "original_name name = Inl AttributeError"
    then have "re_search name = None"
      by (simp add: original_name_def split: option.splits)
    then show "\<not> (\<exists>pre d' key' post. name = pre @ d' # CHR ''_'' # key' @ ''.csv'' @ post \<and>
            is_digit d' \<and> newline \<notin> set key')"
      using re_search_complete by blast
  next
    assume n: "\<not> (\<exists>pre d' key' post. name = pre @ d' # CHR ''_'' # key' @ ''.csv'' @ post \<and>
            is_digit d' \<and> newline \<notin> set key')"
    have "re_search name = None"
    proof (cases "re_search name")
      case (Some k')
      from re_search_sound [OF this] n show ?thesis by blast
    qed simp
    then show "original_name name = Inl AttributeError"
      by (simp add: original_name_def)
  qed
next
  assume "original_name name = Inr k"
  then have "re_search name = Some k"
    by (simp add: original_name_def split: option.splits)
  then show "\<exists>pre d' post. name = pre @ d' # CHR ''_'' # k @ ''.csv'' @ post \<and>
            is_digit d' \<and> newline \<notin> set k"
    by (rule re_search_sound)
next
  assume "name \<in> set (csv_files (data_dir w)) \<and> original_name name = Inl AttributeError"
  then show "fst (generate_site env w) \<noteq> None"
    using generate_site_abort by blast
qed

text \<open>The hypotheses of C1 hold at concrete names and at a concrete data directory.\<close>

theorem key_extraction_witness:
  "is_digit CHR ''1'' \<and> newline \<notin> set ''learning_resources'' \<and>
   \<not> sublist ''.csv'' ''learning_resources'' \<and>
   original_name ''1_learning_resources.csv'' = Inr ''learning_resources'' \<and>
   original_name ''notes.csv'' = Inl AttributeError \<and>
   original_name ''10_x.csv'' = Inr ''x'' \<and>
   ''notes.csv'' \<in> set (csv_files (data_dir demo_world_bad_name)) \<and>
   fst (generate_site demo_env demo_world_bad_name) \<noteq> None"
proof -
  have 1: "is_digit CHR ''1'' \<and> newline \<notin> set ''learning_resources'' \<and>
     \<not> sublist ''.csv'' ''learning_resources''"
    by (simp add: is_digit_def sublist_Cons_right)
  have 2: "original_name ''notes.csv'' = Inl AttributeError"
    by (simp add: original_name_def is_digit_def)
  have 3: "''notes.csv'' \<in> set (csv_files (data_dir demo_world_bad_name))"
    by (simp add: csv_files_def demo_world_bad_name_def demo_world_def path_suffix_def rfind_dot_def)
  have 4: "original_name ''10_x.csv'' = Inr ''x''"
    by code_simp
  from key_extraction [of "CHR ''1''" "''learning_resources''" "''notes.csv''" "''x''"
      demo_world_bad_name demo_env] 1 2 3 4
  show ?thesis by simp
qed

text \<open>
  C1 as stated fails: the name \<^verbatim>\<open>1_a.csv.csv\<close> has the key \<^verbatim>\<open>a.csv\<close>, and the
  extraction returns \<^verbatim>\<open>a\<close>; the name \<^verbatim>\<open>10_x.csv\<close> is not a digit, an underscore, a
  key and \<^verbatim>\<open>.csv\<close>, it is collected, and the extraction returns \<^verbatim>\<open>x\<close> for it.
\<close>

theorem key_extraction_counterexample:
  "pattern_key ''1_a.csv.csv'' = Some ''a.csv'' \<and> original_name ''1_a.csv.csv'' = Inr ''a'' \<and>
   pattern_key ''10_x.csv'' = None \<and> path_suffix ''10_x.csv'' = ''.csv'' \<and>
   original_name ''10_x.csv'' = Inr ''x''"
  by code_simp

subsection \<open>Display labels\<close>

text \<open>
  C7. The label of a key is the entry of the fixed table when the key is in the table and
  the key itself otherwise; every category the loop of \<^verbatim>\<open>generate_site\<close> builds carries
  the label of its key.
\<close>

theorem display_label:
  "processed_name key = (case LISTS_MAPPING key of Some label \<Rightarrow> label | None \<Rightarrow> key) \<and>
   LISTS_MAPPING ''learning_resources'' = Some ''&#128218; Learning Resources'' \<and>
   LISTS_MAPPING ''productivity'' = Some ''&#128187; Productivity'' \<and>
   LISTS_MAPPING ''health'' = Some ''&#x1F3CB; Health & Fitness'' \<and>
   LISTS_MAPPING ''entertainment'' = Some ''&#x1F4FA; Entertainment'' \<and>
   (read_csv_files env fs [] w = (Inr lists_all, w') \<longrightarrow>
      (\<forall>cat \<in> set lists_all. fst (snd cat) = processed_name (fst cat)))"
proof -
  have "\<forall>cat \<in> set lists_all. fst (snd cat) = processed_name (fst cat)"
    if "read_csv_files env fs [] w = (Inr lists_all, w')"
  proof -
    from read_csv_files_result [OF that] have "list_all2 (from_file env (data_dir w)) fs lists_all"
      by simp
    then show ?thesis
      by (auto simp: list_all2_conv_all_nth in_set_conv_nth from_file_def split: prod.splits)
  qed
  then show ?thesis
    by (simp add: processed_name_def dict_get_def LISTS_MAPPING_def)
qed

text \<open>The hypothesis of C7 holds for a file of the example data directory.\<close>

theorem display_label_witness:
  "read_csv_files demo_env [''2_health.csv''] [] demo_world =
     (Inr [(''health'', ''&#x1F3CB; Health & Fitness'', [])],
      logged Renderer (Read_csv ''2_health.csv'') demo_world) \<and>
   processed_name ''health'' = ''&#x1F3CB; Health & Fitness''"
proof -
  have r: "read_csv_files demo_env [''2_health.csv''] [] demo_world =
     (Inr [(''health'', ''&#x1F3CB; Health & Fitness'', [])],
      logged Renderer (Read_csv ''2_health.csv'') demo_world)"
    by (simp add: original_name_def is_digit_def match_lazy_step match_lazy_found
        demo_world_def demo_env_def logged_def processed_name_def dict_get_def
        LISTS_MAPPING_def)
  from display_label [of "''health''" demo_env "[''2_health.csv'']" demo_world
      "[(''health'', ''&#x1F3CB; Health & Fitness'', [])]"
      "logged Renderer (Read_csv ''2_health.csv'') demo_world"] r
  show ?thesis by (simp only: simp_thms option.case)
qed

end
